theory Spec2Isabelle
  imports Main "HOL-Library.AList"
begin

section \<open>The Artifact class of BuildStream (\<^verbatim>\<open>src/buildstream/_artifact.py\<close>)\<close>

text \<open>
  The class \<^verbatim>\<open>Artifact\<close> is embedded method by method. Its collaborators (the CAS-based
  virtual directory, the CAS, the artifact cache with its reference index, the YAML
  module, the element and the context) are not part of the sources at hand; each of their
  operations that a method calls is modelled from the specification and marked so.
\<close>

subsection \<open>Exceptions\<close>

text \<open>
  \<^verbatim>\<open>ArtifactError\<close> is the one exception class that the source names: \<^verbatim>\<open>cached()\<close> catches
  it around \<^verbatim>\<open>_get_directory()\<close>, with the comment "Either ref or top-level artifact directory
  missing". The other constructors are the error kinds of the specification (section 7),
  raised by the collaborators as exceptions of other classes.
\<close>

datatype error = ArtifactError | NotFound | Malformed | IOFailed | SchemaMismatch

subsection \<open>Python values, YAML documents, file contents\<close>

text \<open>
  The Python values that travel through the metadata files. A \<^verbatim>\<open>dict\<close> with string keys is a
  map; Python compares dictionaries without regard to the order of their keys, and so does
  equality of maps.
\<close>

datatype yaml = YNone | YBool bool | YStr string | YList "yaml list" | YDict "string \<Rightarrow> yaml option"

type_synonym dict = "string \<Rightarrow> yaml option"

text \<open>
  The contents of a regular file: \<open>YamlText d\<close> is the text that \<^verbatim>\<open>_yaml.dump\<close> writes for the
  mapping \<open>d\<close>, \<open>Text s\<close> is any other text (a build log), which does not parse as a metadata
  document.
\<close>

datatype filedata = Text string | YamlText dict

text \<open>The types that the accessors ask \<^verbatim>\<open>node_get\<close> for: \<^verbatim>\<open>bool\<close>, \<^verbatim>\<open>str\<close>, \<^verbatim>\<open>list\<close>.\<close>

datatype pytype = PyBool | PyStr | PyList

text \<open>
  Modelled from the spec: the type validation inside \<^verbatim>\<open>_yaml.node_get\<close>, absent from the
  sources: whether a value has the expected type.
\<close>

definition has_type :: "pytype \<Rightarrow> yaml \<Rightarrow> bool" where
  "has_type t v =
     (case (t, v) of
        (PyBool, YBool b) \<Rightarrow> True
      | (PyStr, YStr s) \<Rightarrow> True
      | (PyList, YList xs) \<Rightarrow> True
      | _ \<Rightarrow> False)"

text \<open>
  Modelled from the spec: \<^verbatim>\<open>_yaml.node_get(node, expected_type, key, default_value)\<close>, absent
  from the sources. The accessors "validate field types"; a metadata YAML with "an unexpected
  type or missing required field" is a \<open>SchemaMismatch\<close>. \<open>default_value = None\<close> stands for
  a call without default, \<open>Some YNone\<close> for \<^verbatim>\<open>default_value=None\<close>.
\<close>

definition node_get :: "dict \<Rightarrow> pytype \<Rightarrow> string \<Rightarrow> yaml option \<Rightarrow> error + yaml" where
  "node_get node expected_type key default_value =
     (case node key of
        None \<Rightarrow> (case default_value of None \<Rightarrow> Inl SchemaMismatch | Some d \<Rightarrow> Inr d)
      | Some v \<Rightarrow> if has_type expected_type v then Inr v else Inl SchemaMismatch)"

text \<open>
  Modelled from the spec: \<^verbatim>\<open>_yaml.node_sanitize\<close>, absent from the sources, canonicalises the
  key order of mappings. A map has no key order, so the canonical form of a value is the
  value.
\<close>

definition node_sanitize :: "'a \<Rightarrow> 'a" where
  "node_sanitize node = node"

subsection \<open>The content-addressable store and virtual directories\<close>

text \<open>
  Modelled from the spec: the store of sections 3 and 4.1. A digest names its content, so a directory
  entry is represented by the object its digest addresses, together with what the local
  store holds of it. A file entry carries its blob when the blob is locally present
  (\<open>None\<close> when only the digest is known) and its executable bit; a directory entry carries
  the entries of its manifest when the manifest is locally present, is \<open>AbsentDirectory\<close> when
  it is not, and \<open>UnreadableDirectory e\<close> when fetching the manifest fails with \<open>e\<close>
  (\<open>Malformed\<close> or \<open>IOFailed\<close>). A symlink entry has a target and no digest.
\<close>

datatype vnode =
    File "filedata option" bool
  | Symlink string
  | Directory "(string \<times> vnode) list"
  | AbsentDirectory
  | UnreadableDirectory error

type_synonym entries = "(string \<times> vnode) list"

type_synonym digest = vnode

text \<open>
  Modelled from the spec: \<^verbatim>\<open>CASCache.contains_directory(digest, with_files)\<close>, absent from the
  sources. It "traverses manifests rooted at the digest. In with_files=false mode, returns
  true if every transitively reachable manifest is present locally, regardless of whether
  file blobs are. In with_files=true mode, every file entry's digest must also be present.
  Symlink targets are not chased. The traversal is depth-first and short-circuits on first
  miss." A digest that does not address a manifest fails to decode (\<open>Malformed\<close>).
\<close>

fun contains_directory :: "digest \<Rightarrow> bool \<Rightarrow> error + bool"
  and contains_entries :: "entries \<Rightarrow> bool \<Rightarrow> error + bool" where
  "contains_directory (Directory es) with_files = contains_entries es with_files"
| "contains_directory AbsentDirectory with_files = Inr False"
| "contains_directory (UnreadableDirectory e) with_files = Inl e"
| "contains_directory (File b x) with_files = Inl Malformed"
| "contains_directory (Symlink t) with_files = Inl Malformed"
| "contains_entries [] with_files = Inr True"
| "contains_entries ((n, File b x) # es) with_files =
     (if with_files \<and> b = None then Inr False else contains_entries es with_files)"
| "contains_entries ((n, Symlink t) # es) with_files = contains_entries es with_files"
| "contains_entries ((n, d) # es) with_files =
     (case contains_directory d with_files of
        Inl e \<Rightarrow> Inl e
      | Inr ok \<Rightarrow> if ok then contains_entries es with_files else Inr False)"

text \<open>
  The read operations of \<^verbatim>\<open>CasBasedDirectory\<close> are absent from the sources and follow
  section 4.2 of the specification. A handle obtained for reading is the list of entries of
  its manifest.
\<close>

text \<open>
  Modelled from the spec: \<^verbatim>\<open>descend(name)\<close> "returns a handle to a named child", or
  \<open>NotFound\<close>; a child manifest that cannot be fetched gives its error.
\<close>

definition descend :: "entries \<Rightarrow> string \<Rightarrow> error + entries" where
  "descend vdir name =
     (case map_of vdir name of
        Some (Directory es) \<Rightarrow> Inr es
      | Some (UnreadableDirectory e) \<Rightarrow> Inl e
      | _ \<Rightarrow> Inl NotFound)"

text \<open>Modelled from the spec: \<^verbatim>\<open>_exists(name)\<close>, a "pure query, no mutation".\<close>

definition exists_vdir :: "entries \<Rightarrow> string \<Rightarrow> bool" where
  "exists_vdir vdir name = (map_of vdir name \<noteq> None)"

text \<open>
  Modelled from the spec: \<^verbatim>\<open>_get_child_digest(name)\<close> gives a digest or \<open>NotFound\<close>; a
  symlink entry has no digest.
\<close>

definition get_child_digest :: "entries \<Rightarrow> string \<Rightarrow> error + digest" where
  "get_child_digest vdir name =
     (case map_of vdir name of
        None \<Rightarrow> Inl NotFound
      | Some (Symlink t) \<Rightarrow> Inl NotFound
      | Some d \<Rightarrow> Inr d)"

text \<open>Modelled from the spec: \<^verbatim>\<open>_get_digest()\<close>, the "current root digest of this handle".\<close>

definition get_digest :: "entries \<Rightarrow> digest" where
  "get_digest vdir = Directory vdir"

text \<open>
  Modelled from the spec: \<^verbatim>\<open>_objpath(name)\<close> "exposes a real filesystem path for a stored
  file blob". The specification gives it no error result. The path into the object store
  is represented by what the filesystem holds at it: the blob, or \<open>None\<close> when no file
  exists there.
\<close>

type_synonym objpath = "filedata option"

definition objpath :: "entries \<Rightarrow> string \<Rightarrow> objpath" where
  "objpath vdir name = (case map_of vdir name of Some (File b x) \<Rightarrow> b | _ \<Rightarrow> None)"

text \<open>\<^verbatim>\<open>os.path.exists\<close> on a path into the object store.\<close>

definition path_exists :: "objpath \<Rightarrow> bool" where
  "path_exists p = (p \<noteq> None)"

text \<open>
  Modelled from the spec: \<^verbatim>\<open>_yaml.load(path)\<close>, absent from the sources. A file that is not
  there is an \<open>IOFailed\<close>, a file that does not parse is \<open>Malformed\<close>.
\<close>

definition yaml_load :: "objpath \<Rightarrow> error + dict" where
  "yaml_load p =
     (case p of
        None \<Rightarrow> Inl IOFailed
      | Some (Text s) \<Rightarrow> Inl Malformed
      | Some (YamlText d) \<Rightarrow> Inr d)"

subsection \<open>Element, context and artifact cache\<close>

text \<open>
  What the methods of \<^verbatim>\<open>Artifact\<close> ask of an element: its name (with the project path), the
  result of \<^verbatim>\<open>_get_cache_key()\<close>, the truth value of \<^verbatim>\<open>_get_workspace()\<close>, what
  \<^verbatim>\<open>dependencies(Scope.BUILD)\<close> yields, the results of \<^verbatim>\<open>_cached()\<close> and of
  \<^verbatim>\<open>_artifact_files_required()\<close>, and the attribute \<^verbatim>\<open>_build_log_path\<close> that \<^verbatim>\<open>cache()\<close> sets.
\<close>

datatype element = Element
  (el_name: string)
  (el_cache_key: "string option")
  (el_workspace: bool)
  (el_dependencies: "element list")
  (el_cached: bool)
  (el_artifact_files_required: bool)
  (el_build_log_path: "string list option")

text \<open>
  Modelled from the spec: the reference index of sections 3 and 4.4. A reference is an
  identifier made of the element's project path and name and of a cache key; it is kept as
  the pair of the element's full name and the key. The reference index maps references to
  root digests. \<open>get_size\<close> is the size accounting of the store, a parameter here.
\<close>

type_synonym reference = "string \<times> string option"

record artifactcache =
  refs :: "reference \<Rightarrow> digest option"
  get_size :: "entries \<Rightarrow> nat"

record "context" =
  require_artifact_directories :: bool
  require_artifact_files :: bool
  log_filename :: "string list option"
  artifactcache :: artifactcache

text \<open>
  Modelled from the spec: \<^verbatim>\<open>Element.get_artifact_name(key)\<close>, absent from the sources, the
  reference of the element for a key.
\<close>

definition get_artifact_name :: "element \<Rightarrow> string option \<Rightarrow> reference" where
  "get_artifact_name el key = (el_name el, key)"

text \<open>
  Modelled from the spec: \<^verbatim>\<open>ArtifactCache.get_artifact_directory(element, key)\<close>, absent from
  the sources. It resolves the reference and opens the root manifest. A reference that
  does not resolve and a root manifest that is missing are the \<open>NotFound\<close> on the root that
  the source catches as \<^verbatim>\<open>ArtifactError\<close>; \<open>Malformed\<close> and \<open>IOFailed\<close> are not translated.
\<close>

definition get_artifact_directory :: "artifactcache \<Rightarrow> element \<Rightarrow> string option \<Rightarrow> error + entries" where
  "get_artifact_directory ac el key =
     (case refs ac (get_artifact_name el key) of
        None \<Rightarrow> Inl ArtifactError
      | Some (Directory es) \<Rightarrow> Inr es
      | Some AbsentDirectory \<Rightarrow> Inl ArtifactError
      | Some (UnreadableDirectory e) \<Rightarrow> Inl e
      | Some (File b x) \<Rightarrow> Inl Malformed
      | Some (Symlink t) \<Rightarrow> Inl Malformed)"

subsection \<open>The Artifact handle\<close>

text \<open>
  The attributes set by \<^verbatim>\<open>__init__\<close>. \<^verbatim>\<open>self._artifacts\<close> is \<^verbatim>\<open>context.artifactcache\<close>, one
  object under two names, hence one field (inside \<open>context\<close>). The field \<open>yaml_loads\<close> is
  not an attribute of the Python object: it records, in call order, the short name of
  every file that a method of this handle hands to \<^verbatim>\<open>_yaml.load\<close>, so that statements about
  parsing can be made.
\<close>

record artifact =
  element :: element
  "context" :: "context"
  cache_key :: "string option"
  weak_cache_key :: "string option"
  metadata_keys :: "(yaml \<times> yaml) option"
  metadata_dependencies :: "dict option"
  metadata_workspaced :: "yaml option"
  metadata_workspaced_dependencies :: "yaml option"
  yaml_loads :: "string list"

definition Artifact_init :: "element \<Rightarrow> context \<Rightarrow> string option \<Rightarrow> string option \<Rightarrow> artifact" where
  "Artifact_init el ctx strong_key weak_key =
     \<lparr> element = el, context = ctx, cache_key = strong_key, weak_cache_key = weak_key,
       metadata_keys = None, metadata_dependencies = None, metadata_workspaced = None,
       metadata_workspaced_dependencies = None, yaml_loads = [] \<rparr>"

text \<open>The truth value of a Python \<^verbatim>\<open>str\<close> or \<^verbatim>\<open>None\<close>: false for \<^verbatim>\<open>None\<close> and for the empty string.\<close>

definition truthy :: "'a list option \<Rightarrow> bool" where
  "truthy v = (case v of None \<Rightarrow> False | Some s \<Rightarrow> s \<noteq> [])"

text \<open>\<^verbatim>\<open>return self._cache_key or self._weak_cache_key\<close>\<close>

definition get_extract_key :: "artifact \<Rightarrow> string option" where
  "get_extract_key self =
     (if truthy (cache_key self) then cache_key self else weak_cache_key self)"

definition get_directory :: "artifact \<Rightarrow> string option \<Rightarrow> error + entries" where
  "get_directory self key =
     (let key = (case key of None \<Rightarrow> get_extract_key self | Some k \<Rightarrow> Some k)
      in get_artifact_directory (artifactcache (context self)) (element self) key)"

definition get_subdirectory :: "artifact \<Rightarrow> string \<Rightarrow> string option \<Rightarrow> error + entries" where
  "get_subdirectory self subdir key =
     (case get_directory self key of
        Inl e \<Rightarrow> Inl e
      | Inr artifact_vdir \<Rightarrow> descend artifact_vdir subdir)"

text \<open>
  \<^verbatim>\<open>cached()\<close>. Only the call of \<^verbatim>\<open>_get_directory()\<close> stands inside the \<^verbatim>\<open>try\<close>, and only
  \<^verbatim>\<open>ArtifactError\<close> is caught. \<^verbatim>\<open>and\<close> and \<^verbatim>\<open>or\<close> evaluate their right operand only when
  needed: \<^verbatim>\<open>contains_directory\<close> on \<^verbatim>\<open>files\<close> is called only when directories are required.
\<close>

definition cached :: "artifact \<Rightarrow> error + bool" where
  "cached self =
     (case get_directory self None of
        Inl e \<Rightarrow> if e = ArtifactError then Inr False else Inl e
      | Inr vdir \<Rightarrow>
          (case get_child_digest vdir ''meta'' of
             Inl e \<Rightarrow> Inl e
           | Inr metadigest \<Rightarrow>
               (case contains_directory metadigest True of
                  Inl e \<Rightarrow> Inl e
                | Inr meta_ok \<Rightarrow>
                    if \<not> meta_ok then Inr False
                    else if exists_vdir vdir ''files'' then
                      (let require_directories = require_artifact_directories (context self);
                           require_files = (require_artifact_files (context self)
                                            \<or> el_artifact_files_required (element self))
                       in case get_child_digest vdir ''files'' of
                            Inl e \<Rightarrow> Inl e
                          | Inr filesdigest \<Rightarrow>
                              if require_directories then
                                (case contains_directory filesdigest require_files of
                                   Inl e \<Rightarrow> Inl e
                                 | Inr files_ok \<Rightarrow> if \<not> files_ok then Inr False else Inr True)
                              else Inr True)
                    else Inr True)))"

text \<open>\<^verbatim>\<open>cached_logs()\<close>: the element's own \<^verbatim>\<open>_cached()\<close> is asked first.\<close>

definition cached_logs :: "artifact \<Rightarrow> error + bool" where
  "cached_logs self =
     (if \<not> el_cached (element self) then Inr False
      else case get_subdirectory self ''logs'' None of
             Inl e \<Rightarrow> Inl e
           | Inr log_vdir \<Rightarrow> contains_directory (get_digest log_vdir) True)"

subsection \<open>Metadata accessors\<close>

text \<open>\<^verbatim>\<open>_yaml.load(meta_file, shortname=...)\<close> as called by the accessors, with the call recorded.\<close>

definition load_file :: "artifact \<Rightarrow> objpath \<Rightarrow> string \<Rightarrow> (error + dict) \<times> artifact" where
  "load_file self meta_file shortname =
     (yaml_load meta_file, self\<lparr>yaml_loads := yaml_loads self @ [shortname]\<rparr>)"

text \<open>
  An accessor returns its result, or the exception it raises, and the handle as the call
  leaves it. \<^verbatim>\<open>load_public_data()\<close> and \<^verbatim>\<open>load_build_result()\<close> assign no attribute.
\<close>

definition load_public_data :: "artifact \<Rightarrow> (error + dict) \<times> artifact" where
  "load_public_data self =
     (case get_subdirectory self ''meta'' None of
        Inl e \<Rightarrow> (Inl e, self)
      | Inr meta_vdir \<Rightarrow>
          (let meta_file = objpath meta_vdir ''public.yaml''
           in load_file self meta_file ''public.yaml''))"

definition load_build_result :: "artifact \<Rightarrow> (error + yaml \<times> yaml \<times> yaml) \<times> artifact" where
  "load_build_result self =
     (case get_subdirectory self ''meta'' None of
        Inl e \<Rightarrow> (Inl e, self)
      | Inr meta_vdir \<Rightarrow>
          (let meta_file = objpath meta_vdir ''build-result.yaml''
           in if \<not> path_exists meta_file then (Inr (YBool True, YStr ''succeeded'', YNone), self)
              else
                (case load_file self meta_file ''build-result.yaml'' of
                   (Inl e, self') \<Rightarrow> (Inl e, self')
                 | (Inr data, self') \<Rightarrow>
                     (case node_get data PyBool ''success'' None of
                        Inl e \<Rightarrow> (Inl e, self')
                      | Inr success \<Rightarrow>
                     (case node_get data PyStr ''description'' (Some YNone) of
                        Inl e \<Rightarrow> (Inl e, self')
                      | Inr description \<Rightarrow>
                     (case node_get data PyStr ''detail'' (Some YNone) of
                        Inl e \<Rightarrow> (Inl e, self')
                      | Inr detail \<Rightarrow> (Inr (success, description, detail), self')))))))"

definition get_metadata_keys :: "artifact \<Rightarrow> (error + yaml \<times> yaml) \<times> artifact" where
  "get_metadata_keys self =
     (case metadata_keys self of
        Some keys \<Rightarrow> (Inr keys, self)
      | None \<Rightarrow>
          (case get_subdirectory self ''meta'' None of
             Inl e \<Rightarrow> (Inl e, self)
           | Inr meta_vdir \<Rightarrow>
               (let meta_file = objpath meta_vdir ''keys.yaml''
                in case load_file self meta_file ''keys.yaml'' of
                     (Inl e, self') \<Rightarrow> (Inl e, self')
                   | (Inr meta, self') \<Rightarrow>
                       (case node_get meta PyStr ''strong'' None of
                          Inl e \<Rightarrow> (Inl e, self')
                        | Inr strong_key \<Rightarrow>
                       (case node_get meta PyStr ''weak'' None of
                          Inl e \<Rightarrow> (Inl e, self')
                        | Inr weak_key \<Rightarrow>
                            (Inr (strong_key, weak_key),
                             self'\<lparr>metadata_keys := Some (strong_key, weak_key)\<rparr>))))))"

definition get_metadata_dependencies :: "artifact \<Rightarrow> (error + dict) \<times> artifact" where
  "get_metadata_dependencies self =
     (case metadata_dependencies self of
        Some deps \<Rightarrow> (Inr deps, self)
      | None \<Rightarrow>
          (case get_subdirectory self ''meta'' None of
             Inl e \<Rightarrow> (Inl e, self)
           | Inr meta_vdir \<Rightarrow>
               (let meta_file = objpath meta_vdir ''dependencies.yaml''
                in case load_file self meta_file ''dependencies.yaml'' of
                     (Inl e, self') \<Rightarrow> (Inl e, self')
                   | (Inr meta, self') \<Rightarrow>
                       (Inr meta, self'\<lparr>metadata_dependencies := Some meta\<rparr>))))"

definition get_metadata_workspaced :: "artifact \<Rightarrow> (error + yaml) \<times> artifact" where
  "get_metadata_workspaced self =
     (case metadata_workspaced self of
        Some w \<Rightarrow> (Inr w, self)
      | None \<Rightarrow>
          (case get_subdirectory self ''meta'' None of
             Inl e \<Rightarrow> (Inl e, self)
           | Inr meta_vdir \<Rightarrow>
               (let meta_file = objpath meta_vdir ''workspaced.yaml''
                in case load_file self meta_file ''workspaced.yaml'' of
                     (Inl e, self') \<Rightarrow> (Inl e, self')
                   | (Inr meta, self') \<Rightarrow>
                       (case node_get meta PyBool ''workspaced'' None of
                          Inl e \<Rightarrow> (Inl e, self')
                        | Inr w \<Rightarrow> (Inr w, self'\<lparr>metadata_workspaced := Some w\<rparr>)))))"

definition get_metadata_workspaced_dependencies :: "artifact \<Rightarrow> (error + yaml) \<times> artifact" where
  "get_metadata_workspaced_dependencies self =
     (case metadata_workspaced_dependencies self of
        Some ws \<Rightarrow> (Inr ws, self)
      | None \<Rightarrow>
          (case get_subdirectory self ''meta'' None of
             Inl e \<Rightarrow> (Inl e, self)
           | Inr meta_vdir \<Rightarrow>
               (let meta_file = objpath meta_vdir ''workspaced-dependencies.yaml''
                in case load_file self meta_file ''workspaced-dependencies.yaml'' of
                     (Inl e, self') \<Rightarrow> (Inl e, self')
                   | (Inr meta, self') \<Rightarrow>
                       (case node_get meta PyList ''workspaced-dependencies'' None of
                          Inl e \<Rightarrow> (Inl e, self')
                        | Inr ws \<Rightarrow>
                            (Inr (node_sanitize ws),
                             self'\<lparr>metadata_workspaced_dependencies := Some (node_sanitize ws)\<rparr>)))))"

subsection \<open>The real filesystem\<close>

text \<open>
  \<^verbatim>\<open>cache()\<close> writes the logs and the metadata with ordinary file operations under the
  \<^verbatim>\<open>rootdir\<close> it is given. The filesystem is a tree; a path is the list of its components,
  and \<^verbatim>\<open>os.path.join(dir, name)\<close> appends a component.
\<close>

datatype fsnode = FsFile filedata | FsDir "(string \<times> fsnode) list"

type_synonym path = "string list"

primrec fs_lookup :: "path \<Rightarrow> fsnode \<Rightarrow> fsnode option" where
  "fs_lookup [] node = Some node"
| "fs_lookup (c # cs) node =
     (case node of
        FsFile d \<Rightarrow> None
      | FsDir es \<Rightarrow> (case map_of es c of None \<Rightarrow> None | Some child \<Rightarrow> fs_lookup cs child))"

text \<open>
  \<open>fs_put p new fs\<close> creates or replaces the entry at \<open>p\<close>; the directory that is to hold
  it must exist.
\<close>

primrec fs_put :: "path \<Rightarrow> fsnode \<Rightarrow> fsnode \<Rightarrow> fsnode option" where
  "fs_put [] new node = None"
| "fs_put (c # cs) new node =
     (case node of
        FsFile d \<Rightarrow> None
      | FsDir es \<Rightarrow>
          if cs = [] then Some (FsDir (AList.update c new es))
          else (case map_of es c of
                  None \<Rightarrow> None
                | Some child \<Rightarrow>
                    (case fs_put cs new child of
                       None \<Rightarrow> None
                     | Some child' \<Rightarrow> Some (FsDir (AList.update c child' es)))))"

text \<open>
  \<^verbatim>\<open>os.mkdir\<close> fails when the path exists or its parent does not; writing a file (as
  \<^verbatim>\<open>_yaml.dump\<close> and \<^verbatim>\<open>shutil.copyfile\<close> do) fails on a directory or without the parent;
  \<^verbatim>\<open>shutil.copyfile\<close> needs a regular source file. All of these are \<open>IOFailed\<close>.
\<close>

definition os_mkdir :: "path \<Rightarrow> fsnode \<Rightarrow> error + fsnode" where
  "os_mkdir p fs =
     (if fs_lookup p fs \<noteq> None then Inl IOFailed
      else case fs_put p (FsDir []) fs of None \<Rightarrow> Inl IOFailed | Some fs' \<Rightarrow> Inr fs')"

definition write_file :: "path \<Rightarrow> filedata \<Rightarrow> fsnode \<Rightarrow> error + fsnode" where
  "write_file p d fs =
     (case fs_lookup p fs of
        Some (FsDir es) \<Rightarrow> Inl IOFailed
      | _ \<Rightarrow> (case fs_put p (FsFile d) fs of None \<Rightarrow> Inl IOFailed | Some fs' \<Rightarrow> Inr fs'))"

definition copyfile :: "path \<Rightarrow> path \<Rightarrow> fsnode \<Rightarrow> error + fsnode" where
  "copyfile src dst fs =
     (case fs_lookup src fs of
        Some (FsFile d) \<Rightarrow> write_file dst d fs
      | _ \<Rightarrow> Inl IOFailed)"

text \<open>
  Modelled from the spec: \<^verbatim>\<open>_yaml.dump(node, path)\<close>, absent from the sources, writes the
  document for the mapping to the path with ordinary file I/O.
\<close>

definition yaml_dump :: "dict \<Rightarrow> path \<Rightarrow> fsnode \<Rightarrow> error + fsnode" where
  "yaml_dump node p fs = write_file p (YamlText node) fs"

subsection \<open>Writing to a virtual directory, committing\<close>

text \<open>
  The mutating operations of \<^verbatim>\<open>CasBasedDirectory\<close> are absent from the sources and follow
  section 4.2 of the specification. A child handle is bound to its parent, "mutating a
  child causes the parent manifest to be rewritten"; following the specification's design
  note, a mutation through the handle of the child \<open>name\<close> is a function on the entries of
  the root that the caller holds.
\<close>

text \<open>
  Modelled from the spec: what \<^verbatim>\<open>import_files\<close> makes of a tree of the real filesystem,
  "preserving relative layout"; a file that comes from the real filesystem has its blob in
  the store.
\<close>

fun to_vnode :: "fsnode \<Rightarrow> vnode" where
  "to_vnode (FsFile d) = File (Some d) False"
| "to_vnode (FsDir es) = Directory (map (\<lambda>(n, c). (n, to_vnode c)) es)"

text \<open>
  Modelled from the spec: \<^verbatim>\<open>descend(name, create=True)\<close> "yields an empty child if absent".
\<close>

definition descend_create :: "entries \<Rightarrow> string \<Rightarrow> error + entries" where
  "descend_create root name =
     (case map_of root name of
        None \<Rightarrow> Inr (AList.update name (Directory []) root)
      | Some (Directory es) \<Rightarrow> Inr root
      | Some (UnreadableDirectory e) \<Rightarrow> Inl e
      | _ \<Rightarrow> Inl NotFound)"

text \<open>
  Modelled from the spec: \<^verbatim>\<open>import_files(source)\<close> on the handle of the child \<open>name\<close>, with
  another virtual directory as source: it "copies a directory tree from an external source
  ... into this directory, ... merging with existing entries. Name collisions in existing
  entries are overwritten by the import. Entries not present in the source are left
  intact."
\<close>

definition import_files :: "entries \<Rightarrow> string \<Rightarrow> entries \<Rightarrow> error + entries" where
  "import_files root name source =
     (case descend root name of
        Inl e \<Rightarrow> Inl e
      | Inr es \<Rightarrow> Inr (AList.update name (Directory (AList.merge es source)) root))"

text \<open>
  Modelled from the spec: \<^verbatim>\<open>import_files(path)\<close> on the handle of the child \<open>name\<close>, with a
  directory of the real filesystem as source.
\<close>

definition import_files_from_path :: "entries \<Rightarrow> string \<Rightarrow> path \<Rightarrow> fsnode \<Rightarrow> error + entries" where
  "import_files_from_path root name p fs =
     (case fs_lookup p fs of
        Some (FsDir es) \<Rightarrow> import_files root name (map (\<lambda>(n, c). (n, to_vnode c)) es)
      | _ \<Rightarrow> Inl IOFailed)"

text \<open>
  Modelled from the spec: \<^verbatim>\<open>utils._deduplicate\<close>, absent from the sources: the list of cache
  keys "with duplicates removed", first occurrences kept.
\<close>

primrec deduplicate_seen :: "'a list \<Rightarrow> 'a list \<Rightarrow> 'a list" where
  "deduplicate_seen [] seen = []"
| "deduplicate_seen (x # xs) seen =
     (if x \<in> set seen then deduplicate_seen xs seen else x # deduplicate_seen xs (x # seen))"

definition deduplicate :: "'a list \<Rightarrow> 'a list" where
  "deduplicate xs = deduplicate_seen xs []"

text \<open>
  Modelled from the spec: \<^verbatim>\<open>ArtifactCache.commit(element, vdir, keys)\<close>, absent from the
  sources (section 4.4), "installs every reference pointing at" the root digest; "if any
  reference already exists with a different digest, the existing binding is replaced".
\<close>

definition commit :: "artifactcache \<Rightarrow> element \<Rightarrow> entries \<Rightarrow> string option list \<Rightarrow> artifactcache" where
  "commit ac el vdir keys =
     ac\<lparr>refs := fold (\<lambda>key r. r(get_artifact_name el key \<mapsto> get_digest vdir)) keys (refs ac)\<rparr>"

subsection \<open>Committing an artifact\<close>

text \<open>The assignment \<^verbatim>\<open>element._build_log_path = ...\<close>\<close>

fun set_build_log_path :: "path option \<Rightarrow> element \<Rightarrow> element" where
  "set_build_log_path p (Element name key workspace deps is_cached files_required old) =
     Element name key workspace deps is_cached files_required p"

text \<open>A key that may be \<^verbatim>\<open>None\<close>, as a Python value.\<close>

definition opt_str :: "string option \<Rightarrow> yaml" where
  "opt_str v = (case v of None \<Rightarrow> YNone | Some s \<Rightarrow> YStr s)"

text \<open>
  The dictionaries that \<^verbatim>\<open>cache()\<close> builds: the build result, with \<^verbatim>\<open>detail\<close> only when it
  is not \<^verbatim>\<open>None\<close>; the cache key of every build dependency by name (a later dependency of
  the same name replaces an earlier one); the names of the build dependencies that have a
  workspace.
\<close>

definition build_result_dict :: "bool \<times> string \<times> string option \<Rightarrow> dict" where
  "build_result_dict buildresult =
     (let d = [''success'' \<mapsto> YBool (fst buildresult),
               ''description'' \<mapsto> YStr (fst (snd buildresult))]
      in case snd (snd buildresult) of None \<Rightarrow> d | Some detail \<Rightarrow> d(''detail'' \<mapsto> YStr detail))"

definition dependencies_dict :: "element \<Rightarrow> dict" where
  "dependencies_dict el =
     fold (\<lambda>e d. d(el_name e \<mapsto> opt_str (el_cache_key e))) (el_dependencies el) Map.empty"

definition workspaced_dependencies_list :: "element \<Rightarrow> yaml" where
  "workspaced_dependencies_list el =
     YList (map (\<lambda>e. YStr (el_name e)) (filter el_workspace (el_dependencies el)))"

text \<open>
  The calls of \<^verbatim>\<open>_yaml.dump\<close> in \<^verbatim>\<open>cache()\<close>, in the order of the source: file name and
  document. \<open>dump_all\<close> performs them one after the other into \<^verbatim>\<open>metadir\<close>.
\<close>

definition meta_documents :: "artifact \<Rightarrow> bool \<times> string \<times> string option \<Rightarrow> dict \<Rightarrow> (string \<times> dict) list" where
  "meta_documents self buildresult publicdata =
     [(''public.yaml'', node_sanitize publicdata),
      (''build-result.yaml'', build_result_dict buildresult),
      (''keys.yaml'',
         node_sanitize [''strong'' \<mapsto> opt_str (cache_key self),
                        ''weak'' \<mapsto> opt_str (weak_cache_key self)]),
      (''dependencies.yaml'', node_sanitize (dependencies_dict (element self))),
      (''workspaced.yaml'',
         node_sanitize [''workspaced'' \<mapsto> YBool (el_workspace (element self))]),
      (''workspaced-dependencies.yaml'',
         node_sanitize [''workspaced-dependencies'' \<mapsto> workspaced_dependencies_list (element self)])]"

fun dump_all :: "(string \<times> dict) list \<Rightarrow> path \<Rightarrow> fsnode \<Rightarrow> error + fsnode" where
  "dump_all [] metadir fs = Inr fs"
| "dump_all ((name, node) # docs) metadir fs =
     (case yaml_dump node (metadir @ [name]) fs of
        Inl e \<Rightarrow> Inl e
      | Inr fs' \<Rightarrow> dump_all docs metadir fs')"

text \<open>One statement after the other: an exception ends the sequence.\<close>

definition and_then :: "error + 'a \<Rightarrow> ('a \<Rightarrow> error + 'b) \<Rightarrow> error + 'b" where
  "and_then m f = (case m of Inl e \<Rightarrow> Inl e | Inr x \<Rightarrow> f x)"

text \<open>
  \<^verbatim>\<open>cache()\<close>. The state it works on is the handle (with the element and the artifact
  cache) and the real filesystem; it returns the size, the handle and the filesystem, or
  the exception of the first statement that fails. \<^verbatim>\<open>collectvdir\<close> is tested with
  \<^verbatim>\<open>is not None\<close>, \<^verbatim>\<open>sandbox_build_dir\<close> by its truth value, which for a directory object is
  true; \<^verbatim>\<open>log_filename\<close> by its truth value, false for \<^verbatim>\<open>None\<close> and for the empty path.
\<close>

definition cache ::
  "artifact \<Rightarrow> path \<Rightarrow> entries option \<Rightarrow> entries option \<Rightarrow> bool \<times> string \<times> string option
     \<Rightarrow> dict \<Rightarrow> fsnode \<Rightarrow> error + nat \<times> artifact \<times> fsnode" where
  "cache self rootdir sandbox_build_dir collectvdir buildresult publicdata fs =
     (let assembledir = rootdir @ [''artifact''];
          logsdir = assembledir @ [''logs''];
          metadir = assembledir @ [''meta''];
          build_log_path = logsdir @ [''build.log''];
          element' = set_build_log_path (Some build_log_path) (element self)
      in
      and_then (descend_create [] ''logs'') (\<lambda>vdir1.
      and_then (descend_create vdir1 ''meta'') (\<lambda>vdir2.
      and_then (os_mkdir assembledir fs) (\<lambda>fs1.
      and_then (os_mkdir logsdir fs1) (\<lambda>fs2.
      and_then (os_mkdir metadir fs2) (\<lambda>fs3.
      and_then (case collectvdir of
                  None \<Rightarrow> Inr vdir2
                | Some files \<Rightarrow>
                    and_then (descend_create vdir2 ''files'') (\<lambda>v. import_files v ''files'' files))
        (\<lambda>vdir3.
      and_then (case sandbox_build_dir of
                  None \<Rightarrow> Inr vdir3
                | Some buildtree \<Rightarrow>
                    and_then (descend_create vdir3 ''buildtree'')
                      (\<lambda>v. import_files v ''buildtree'' buildtree))
        (\<lambda>vdir4.
      and_then (case log_filename (context self) of
                  None \<Rightarrow> Inr fs3
                | Some name \<Rightarrow> if name = [] then Inr fs3 else copyfile name build_log_path fs3)
        (\<lambda>fs4.
      and_then (dump_all (meta_documents self buildresult publicdata) metadir fs4) (\<lambda>fs5.
      and_then (import_files_from_path vdir4 ''meta'' metadir fs5) (\<lambda>vdir5.
      and_then (import_files_from_path vdir5 ''logs'' logsdir fs5) (\<lambda>vdir6.
      let artifact_size = get_size (artifactcache (context self)) vdir6;
          keys = deduplicate [cache_key self, weak_cache_key self];
          artifacts' = commit (artifactcache (context self)) element' vdir6 keys
      in Inr (artifact_size,
              self\<lparr>element := element', context := (context self)\<lparr>artifactcache := artifacts'\<rparr>\<rparr>,
              fs5)))))))))))))"

text \<open>
  The files that \<^verbatim>\<open>cache()\<close> writes into \<^verbatim>\<open>meta/\<close>, by name, and the entries of the real
  \<^verbatim>\<open>meta/\<close> directory under a \<^verbatim>\<open>rootdir\<close>.
\<close>

definition well_known_meta_files :: "string list" where
  "well_known_meta_files =
     [''public.yaml'', ''build-result.yaml'', ''keys.yaml'', ''dependencies.yaml'',
      ''workspaced.yaml'', ''workspaced-dependencies.yaml'']"

definition real_meta_files :: "path \<Rightarrow> fsnode \<Rightarrow> (string \<times> fsnode) list" where
  "real_meta_files rootdir fs =
     (case fs_lookup (rootdir @ [''artifact'', ''meta'']) fs of
        Some (FsDir es) \<Rightarrow> es
      | _ \<Rightarrow> [])"

text \<open>
  The specification's notion of a valid root, in its words "a root is valid if \<^verbatim>\<open>meta/\<close> and
  all [well-known] files are present", over the files that the source writes.
\<close>

definition valid_root :: "entries \<Rightarrow> bool" where
  "valid_root root =
     (case descend root ''meta'' of
        Inl e \<Rightarrow> False
      | Inr meta \<Rightarrow>
          list_all (\<lambda>n. case map_of meta n of Some (File b x) \<Rightarrow> True | _ \<Rightarrow> False)
            well_known_meta_files)"

text \<open>
  What a metadata accessor has no business changing on the handle: the element, the
  context with the artifact cache (the reference index and the objects it addresses), and
  the two cache keys.
\<close>

definition same_identity :: "artifact \<Rightarrow> artifact \<Rightarrow> bool" where
  "same_identity self self' \<longleftrightarrow>
     element self' = element self \<and> context self' = context self
     \<and> cache_key self' = cache_key self \<and> weak_cache_key self' = weak_cache_key self"

subsection \<open>A stored artifact, for concrete evaluation\<close>

definition hello_element :: "bool \<Rightarrow> element" where
  "hello_element is_cached =
     Element ''base/hello.bst'' (Some ''aaaa'') False [] is_cached False None"

definition hello_meta :: entries where
  "hello_meta =
     [(''public.yaml'', File (Some (YamlText Map.empty)) False),
      (''build-result.yaml'',
         File (Some (YamlText [''success'' \<mapsto> YBool False, ''description'' \<mapsto> YStr ''failed''])) False),
      (''keys.yaml'',
         File (Some (YamlText [''strong'' \<mapsto> YStr ''aaaa'', ''weak'' \<mapsto> YStr ''bbbb''])) False),
      (''dependencies.yaml'', File (Some (YamlText Map.empty)) False),
      (''workspaced.yaml'', File (Some (YamlText [''workspaced'' \<mapsto> YBool False])) False),
      (''workspaced-dependencies.yaml'',
         File (Some (YamlText [''workspaced-dependencies'' \<mapsto> YList []])) False)]"

definition hello_logs :: entries where
  "hello_logs = [(''build.log'', File (Some (Text ''done'')) False)]"

text \<open>The blob of the one file under \<^verbatim>\<open>files/\<close> is not locally present.\<close>

definition hello_files :: entries where
  "hello_files = [(''hello'', File None False)]"

definition hello_root :: entries where
  "hello_root =
     [(''logs'', Directory hello_logs), (''meta'', Directory hello_meta),
      (''files'', Directory hello_files)]"

definition hello_cache :: "digest \<Rightarrow> artifactcache" where
  "hello_cache root =
     \<lparr> refs = [(''base/hello.bst'', Some ''aaaa'') \<mapsto> root], get_size = (\<lambda>vdir. 0) \<rparr>"

definition hello_context :: "bool \<Rightarrow> bool \<Rightarrow> digest \<Rightarrow> context" where
  "hello_context dirs files root =
     \<lparr> require_artifact_directories = dirs, require_artifact_files = files,
       log_filename = Some [''log''], artifactcache = hello_cache root \<rparr>"

text \<open>
  A handle on the stored artifact: whether the element reports itself cached, the policy
  pair, and what the reference resolves to.
\<close>

definition hello_artifact :: "bool \<Rightarrow> bool \<Rightarrow> bool \<Rightarrow> digest \<Rightarrow> artifact" where
  "hello_artifact is_cached dirs files root =
     Artifact_init (hello_element is_cached) (hello_context dirs files root)
       (Some ''aaaa'') (Some ''bbbb'')"

text \<open>
  A commit for the same element, before anything is stored: a filesystem with the temporary
  directory \<^verbatim>\<open>/tmp/build\<close> and the log file \<^verbatim>\<open>/log\<close>, a successful build and no public data.
\<close>

definition tmp_fs :: fsnode where
  "tmp_fs = FsDir [(''tmp'', FsDir [(''build'', FsDir [])]), (''log'', FsFile (Text ''ok''))]"

definition hello_commit :: "entries option \<Rightarrow> entries option \<Rightarrow> error + nat \<times> artifact \<times> fsnode" where
  "hello_commit sandbox_build_dir collectvdir =
     cache (hello_artifact False True True AbsentDirectory) [''tmp'', ''build'']
       sandbox_build_dir collectvdir (True, ''succeeded'', None) Map.empty tmp_fs"

section \<open>Properties\<close>

subsection \<open>The extract key\<close>

text \<open>
  C7. \<^verbatim>\<open>get_extract_key()\<close> returns the strong cache key when it is set, and the weak cache
  key otherwise. The source writes \<^verbatim>\<open>self._cache_key or self._weak_cache_key\<close>, so a key is
  set when Python takes it for true: it is neither \<^verbatim>\<open>None\<close> nor the empty string.
\<close>

theorem get_extract_key_strong_else_weak:
  "get_extract_key self =
     (case cache_key self of
        None \<Rightarrow> weak_cache_key self
      | Some k \<Rightarrow> if k \<noteq> [] then Some k else weak_cache_key self)"
  by (simp add: get_extract_key_def truthy_def split: option.split)

theorem get_extract_key_strong_else_weak_witness:
  "get_extract_key (hello_artifact True True True AbsentDirectory) = Some ''aaaa''
   \<and> get_extract_key
         (Artifact_init (hello_element True) (hello_context True True AbsentDirectory) None (Some ''bbbb''))
       = Some ''bbbb''
   \<and> get_extract_key
         (Artifact_init (hello_element True) (hello_context True True AbsentDirectory) (Some []) (Some ''bbbb''))
       = Some ''bbbb''"
  using get_extract_key_strong_else_weak [of "hello_artifact True True True AbsentDirectory"]
    get_extract_key_strong_else_weak
      [of "Artifact_init (hello_element True) (hello_context True True AbsentDirectory) None (Some ''bbbb'')"]
    get_extract_key_strong_else_weak
      [of "Artifact_init (hello_element True) (hello_context True True AbsentDirectory) (Some []) (Some ''bbbb'')"]
  by (simp add: hello_artifact_def Artifact_init_def)

subsection \<open>Facts about the stored example\<close>

lemma hello_dir [simp]:
  "get_directory (hello_artifact c d f (Directory r)) None = Inr r"
  "get_directory (hello_artifact c d f AbsentDirectory) None = Inl ArtifactError"
  "get_directory (hello_artifact c d f (UnreadableDirectory e)) None = Inl e"
  by (simp_all add: get_directory_def get_artifact_directory_def hello_artifact_def Artifact_init_def
      hello_context_def hello_cache_def get_extract_key_def truthy_def get_artifact_name_def
      hello_element_def)

lemma hello_fields [simp]:
  "require_artifact_directories (context (hello_artifact c d f r)) = d"
  "require_artifact_files (context (hello_artifact c d f r)) = f"
  "el_artifact_files_required (element (hello_artifact c d f r)) = False"
  "el_cached (element (hello_artifact c d f r)) = c"
  by (simp_all add: hello_artifact_def Artifact_init_def hello_context_def hello_element_def)

lemma hello_files_contained [simp]:
  "contains_entries hello_files w = Inr (\<not> w)"
  by (simp add: hello_files_def)

lemma hello_meta_contained [simp]:
  "contains_entries hello_meta w = Inr True"
  by (simp add: hello_meta_def)

lemma hello_logs_contained [simp]:
  "contains_entries hello_logs w = Inr True"
  by (simp add: hello_logs_def)

lemma hello_root_children [simp]:
  "exists_vdir hello_root ''files''"
  "get_child_digest hello_root ''files'' = Inr (Directory hello_files)"
  "get_child_digest hello_root ''meta'' = Inr (Directory hello_meta)"
  "descend hello_root ''meta'' = Inr hello_meta"
  "descend hello_root ''logs'' = Inr hello_logs"
  by (simp_all add: hello_root_def exists_vdir_def get_child_digest_def descend_def)

lemma hello_subdir [simp]:
  "get_subdirectory (hello_artifact c d f (Directory hello_root)) ''meta'' None = Inr hello_meta"
  by (simp add: get_subdirectory_def)

lemma hello_memos [simp]:
  "metadata_keys (hello_artifact c d f r) = None"
  "metadata_dependencies (hello_artifact c d f r) = None"
  "metadata_workspaced (hello_artifact c d f r) = None"
  "metadata_workspaced_dependencies (hello_artifact c d f r) = None"
  "yaml_loads (hello_artifact c d f r) = []"
  by (simp_all add: hello_artifact_def Artifact_init_def)

lemma get_subdirectory_yaml_loads [simp]:
  "get_subdirectory (self\<lparr>yaml_loads := l\<rparr>) subdir key = get_subdirectory self subdir key"
  by (simp add: get_subdirectory_def get_directory_def get_extract_key_def split: option.split)

lemma load_file_frame [simp]:
  "element (snd (load_file self p n)) = element self"
  "context (snd (load_file self p n)) = context self"
  "cache_key (snd (load_file self p n)) = cache_key self"
  "weak_cache_key (snd (load_file self p n)) = weak_cache_key self"
  "metadata_keys (snd (load_file self p n)) = metadata_keys self"
  "metadata_dependencies (snd (load_file self p n)) = metadata_dependencies self"
  "metadata_workspaced (snd (load_file self p n)) = metadata_workspaced self"
  "metadata_workspaced_dependencies (snd (load_file self p n)) = metadata_workspaced_dependencies self"
  by (simp_all add: load_file_def)

subsection \<open>The materialization predicate\<close>

text \<open>
  C1. \<^verbatim>\<open>cached()\<close> returns true if and only if (1) the root reference resolves to a
  directory, (2) the \<^verbatim>\<open>meta/\<close> subtree is contained in the CAS with all file blobs, and (3)
  the manifest has no \<^verbatim>\<open>files/\<close> child, or the \<^verbatim>\<open>files/\<close> child passes the policy: regardless
  when \<^verbatim>\<open>require_directories\<close> is false; else with its manifests present when
  \<^verbatim>\<open>require_files\<close> is false; else with its file blobs present as well. As in the source,
  \<^verbatim>\<open>require_files\<close> is the context's flag or the element's own requirement.
\<close>

theorem cached_iff:
  "cached self = Inr True \<longleftrightarrow>
     (\<exists>vdir. get_directory self None = Inr vdir \<and>
        (\<exists>metadigest. get_child_digest vdir ''meta'' = Inr metadigest
            \<and> contains_directory metadigest True = Inr True) \<and>
        (\<not> exists_vdir vdir ''files'' \<or>
           (\<exists>filesdigest. get_child_digest vdir ''files'' = Inr filesdigest \<and>
              (if \<not> require_artifact_directories (context self) then True
               else if \<not> (require_artifact_files (context self)
                            \<or> el_artifact_files_required (element self))
                    then contains_directory filesdigest False = Inr True
               else contains_directory filesdigest True = Inr True))))"
  by (cases "require_artifact_directories (context self)";
      cases "require_artifact_files (context self)";
      cases "el_artifact_files_required (element self)")
    (auto simp: cached_def Let_def split: sum.splits)

theorem cached_iff_witness:
  "exists_vdir hello_root ''files''
   \<and> cached (hello_artifact True True False (Directory hello_root)) = Inr True
   \<and> cached (hello_artifact True True True (Directory hello_root)) \<noteq> Inr True
   \<and> cached (hello_artifact True False True (Directory hello_root)) = Inr True"
  using cached_iff [of "hello_artifact True True False (Directory hello_root)"]
    cached_iff [of "hello_artifact True True True (Directory hello_root)"]
    cached_iff [of "hello_artifact True False True (Directory hello_root)"]
  by simp

text \<open>
  C2. When the root reference or the top-level directory is missing (\<^verbatim>\<open>ArtifactError\<close> from
  \<^verbatim>\<open>_get_directory()\<close>), \<^verbatim>\<open>cached()\<close> returns false. Any other error of \<^verbatim>\<open>_get_directory()\<close>,
  such as \<open>Malformed\<close> or \<open>IOFailed\<close>, and every error raised by a later step of the check
  (the digest of \<^verbatim>\<open>meta\<close>, its containment, the digest of \<^verbatim>\<open>files\<close>, its containment) reaches
  the caller as it is.
\<close>

theorem cached_errors:
  "(get_directory self None = Inl ArtifactError \<longrightarrow> cached self = Inr False)
   \<and> (e \<noteq> ArtifactError \<and> get_directory self None = Inl e \<longrightarrow> cached self = Inl e)
   \<and> (get_directory self None = Inr vdir \<and> get_child_digest vdir ''meta'' = Inl e
         \<longrightarrow> cached self = Inl e)
   \<and> (get_directory self None = Inr vdir
         \<and> get_child_digest vdir ''meta'' = Inr metadigest
         \<and> contains_directory metadigest True = Inl e
         \<longrightarrow> cached self = Inl e)
   \<and> (get_directory self None = Inr vdir
         \<and> get_child_digest vdir ''meta'' = Inr metadigest
         \<and> contains_directory metadigest True = Inr True
         \<and> exists_vdir vdir ''files''
         \<and> get_child_digest vdir ''files'' = Inl e
         \<longrightarrow> cached self = Inl e)
   \<and> (get_directory self None = Inr vdir
         \<and> get_child_digest vdir ''meta'' = Inr metadigest
         \<and> contains_directory metadigest True = Inr True
         \<and> get_child_digest vdir ''files'' = Inr filesdigest
         \<and> require_artifact_directories (context self)
         \<and> contains_directory filesdigest
              (require_artifact_files (context self) \<or> el_artifact_files_required (element self)) = Inl e
         \<longrightarrow> cached self = Inl e)"
  by (cases "require_artifact_files (context self)";
      cases "el_artifact_files_required (element self)")
    (auto simp: cached_def Let_def exists_vdir_def get_child_digest_def split: sum.splits option.splits)

theorem cached_errors_witness:
  "cached (hello_artifact True True True AbsentDirectory) = Inr False
   \<and> cached (hello_artifact True True True (UnreadableDirectory Malformed)) = Inl Malformed
   \<and> cached (hello_artifact True True True (UnreadableDirectory IOFailed)) = Inl IOFailed
   \<and> cached (hello_artifact True True True (Directory [(''meta'', UnreadableDirectory IOFailed)]))
       = Inl IOFailed
   \<and> cached (hello_artifact True True True
         (Directory [(''meta'', Directory hello_meta), (''files'', UnreadableDirectory Malformed)]))
       = Inl Malformed"
proof -
  let ?a = "\<lambda>r. hello_artifact True True True r"
  have 1: "cached (?a AbsentDirectory) = Inr False"
    using cached_errors [of "?a AbsentDirectory"] by simp
  have 2: "cached (?a (UnreadableDirectory Malformed)) = Inl Malformed"
    using cached_errors [of "?a (UnreadableDirectory Malformed)" Malformed] by simp
  have 3: "cached (?a (UnreadableDirectory IOFailed)) = Inl IOFailed"
    using cached_errors [of "?a (UnreadableDirectory IOFailed)" IOFailed] by simp
  have 4: "cached (?a (Directory [(''meta'', UnreadableDirectory IOFailed)])) = Inl IOFailed"
    using cached_errors [of "?a (Directory [(''meta'', UnreadableDirectory IOFailed)])" IOFailed
        "[(''meta'', UnreadableDirectory IOFailed)]" "UnreadableDirectory IOFailed"]
    by (simp add: get_child_digest_def)
  have 5: "cached (?a (Directory [(''meta'', Directory hello_meta), (''files'', UnreadableDirectory Malformed)]))
       = Inl Malformed"
    using cached_errors [of
        "?a (Directory [(''meta'', Directory hello_meta), (''files'', UnreadableDirectory Malformed)])"
        Malformed "[(''meta'', Directory hello_meta), (''files'', UnreadableDirectory Malformed)]"
        "Directory hello_meta" "UnreadableDirectory Malformed"]
    by (simp add: get_child_digest_def)
  from 1 2 3 4 5 show ?thesis by simp
qed

subsection \<open>Logs\<close>

text \<open>
  C8, as stated: \<^verbatim>\<open>cached_logs()\<close> is true whenever \<^verbatim>\<open>logs/\<close> is present with all its file
  blobs, with no further precondition. It is not: for an element that does not report
  itself cached, the method returns false although \<^verbatim>\<open>logs/\<close> is there with all its blobs.
\<close>

theorem cached_logs_without_element_cached:
  "get_directory (hello_artifact False True True (Directory hello_root)) None = Inr hello_root
   \<and> descend hello_root ''logs'' = Inr hello_logs
   \<and> contains_directory (get_digest hello_logs) True = Inr True
   \<and> cached_logs (hello_artifact False True True (Directory hello_root)) = Inr False"
  by (simp add: cached_logs_def get_digest_def)

text \<open>
  C8, amended: \<^verbatim>\<open>cached_logs()\<close> returns true if and only if the element reports itself
  cached, the root reference resolves, and \<^verbatim>\<open>logs/\<close> is present in the manifest with all of
  its file blobs locally present.
\<close>

theorem cached_logs_iff:
  "cached_logs self = Inr True \<longleftrightarrow>
     el_cached (element self) \<and>
     (\<exists>vdir log_vdir. get_directory self None = Inr vdir \<and> descend vdir ''logs'' = Inr log_vdir
         \<and> contains_directory (get_digest log_vdir) True = Inr True)"
  by (auto simp: cached_logs_def get_subdirectory_def split: sum.splits)

theorem cached_logs_iff_witness:
  "el_cached (element (hello_artifact True True True (Directory hello_root)))
   \<and> cached_logs (hello_artifact True True True (Directory hello_root)) = Inr True"
  using cached_logs_iff [of "hello_artifact True True True (Directory hello_root)"]
  by (simp add: get_digest_def)

subsection \<open>The build result\<close>

text \<open>
  C3. For an artifact whose \<^verbatim>\<open>meta/\<close> directory has no \<^verbatim>\<open>build-result.yaml\<close>,
  \<^verbatim>\<open>load_build_result()\<close> returns exactly \<^verbatim>\<open>(True, "succeeded", None)\<close>, raises nothing and
  leaves the handle as it was. When the file is present, with a boolean \<^verbatim>\<open>success\<close> and with
  \<^verbatim>\<open>description\<close> and \<^verbatim>\<open>detail\<close> each a string or absent, it returns the parsed triple, an
  absent field read as \<^verbatim>\<open>None\<close>.
\<close>

theorem load_build_result_default:
  "(get_subdirectory self ''meta'' None = Inr meta_vdir
      \<and> map_of meta_vdir ''build-result.yaml'' = None
    \<longrightarrow> load_build_result self = (Inr (YBool True, YStr ''succeeded'', YNone), self))
   \<and> (get_subdirectory self ''meta'' None = Inr meta_vdir
      \<and> map_of meta_vdir ''build-result.yaml'' = Some (File (Some (YamlText data)) x)
      \<and> data ''success'' = Some (YBool success)
      \<and> (data ''description'' = None \<or> (\<exists>s. data ''description'' = Some (YStr s)))
      \<and> (data ''detail'' = None \<or> (\<exists>s. data ''detail'' = Some (YStr s)))
    \<longrightarrow> fst (load_build_result self) =
          Inr (YBool success,
               (case data ''description'' of None \<Rightarrow> YNone | Some s \<Rightarrow> s),
               (case data ''detail'' of None \<Rightarrow> YNone | Some s \<Rightarrow> s)))"
  by (auto simp: load_build_result_def objpath_def path_exists_def load_file_def yaml_load_def
      node_get_def has_type_def Let_def)

theorem load_build_result_default_witness:
  "load_build_result (hello_artifact True True True (Directory [(''meta'', Directory [])]))
     = (Inr (YBool True, YStr ''succeeded'', YNone),
        hello_artifact True True True (Directory [(''meta'', Directory [])]))
   \<and> fst (load_build_result (hello_artifact True True True (Directory hello_root)))
     = Inr (YBool False, YStr ''failed'', YNone)"
proof -
  have 1: "get_subdirectory (hello_artifact True True True (Directory [(''meta'', Directory [])])) ''meta'' None
      = Inr []"
    by (simp add: get_subdirectory_def descend_def)
  have 2: "map_of hello_meta ''build-result.yaml''
      = Some (File (Some (YamlText [''success'' \<mapsto> YBool False, ''description'' \<mapsto> YStr ''failed''])) False)"
    by (simp add: hello_meta_def)
  show ?thesis
    using load_build_result_default
        [of "hello_artifact True True True (Directory [(''meta'', Directory [])])" "[]"]
      load_build_result_default
        [of "hello_artifact True True True (Directory hello_root)" hello_meta
          "[''success'' \<mapsto> YBool False, ''description'' \<mapsto> YStr ''failed'']" False False]
      1 2
    by simp
qed

subsection \<open>Parsing once\<close>

text \<open>
  C4, as stated: every metadata accessor, the build result and the public data among them,
  parses its file at most once per handle. It does not: \<^verbatim>\<open>load_build_result()\<close> keeps nothing
  on the handle, and two calls on one handle parse \<^verbatim>\<open>build-result.yaml\<close> twice.
\<close>

theorem load_build_result_parses_again:
  "yaml_loads (snd (load_build_result (snd (load_build_result
       (hello_artifact True True True (Directory hello_root))))))
     = [''build-result.yaml'', ''build-result.yaml'']"
  by (simp add: load_build_result_def objpath_def path_exists_def load_file_def yaml_load_def
      node_get_def has_type_def Let_def hello_meta_def)

lemma get_metadata_keys_once:
  "get_metadata_keys self = (Inr keys, self') \<Longrightarrow>
     metadata_keys self' = Some keys \<and> get_metadata_keys self' = (Inr keys, self')
     \<and> (yaml_loads self' = yaml_loads self \<or> yaml_loads self' = yaml_loads self @ [''keys.yaml''])"
  by (auto simp: get_metadata_keys_def load_file_def Let_def
      split: option.splits sum.splits prod.splits)

lemma get_metadata_dependencies_once:
  "get_metadata_dependencies self = (Inr deps, self') \<Longrightarrow>
     metadata_dependencies self' = Some deps \<and> get_metadata_dependencies self' = (Inr deps, self')
     \<and> (yaml_loads self' = yaml_loads self
         \<or> yaml_loads self' = yaml_loads self @ [''dependencies.yaml''])"
  by (auto simp: get_metadata_dependencies_def load_file_def Let_def
      split: option.splits sum.splits prod.splits)

lemma get_metadata_workspaced_once:
  "get_metadata_workspaced self = (Inr w, self') \<Longrightarrow>
     metadata_workspaced self' = Some w \<and> get_metadata_workspaced self' = (Inr w, self')
     \<and> (yaml_loads self' = yaml_loads self
         \<or> yaml_loads self' = yaml_loads self @ [''workspaced.yaml''])"
  by (auto simp: get_metadata_workspaced_def load_file_def Let_def
      split: option.splits sum.splits prod.splits)

lemma get_metadata_workspaced_dependencies_once:
  "get_metadata_workspaced_dependencies self = (Inr ws, self') \<Longrightarrow>
     metadata_workspaced_dependencies self' = Some ws
     \<and> get_metadata_workspaced_dependencies self' = (Inr ws, self')
     \<and> (yaml_loads self' = yaml_loads self
         \<or> yaml_loads self' = yaml_loads self @ [''workspaced-dependencies.yaml''])"
  by (auto simp: get_metadata_workspaced_dependencies_def load_file_def Let_def
      split: option.splits sum.splits prod.splits)

lemma load_public_data_parses:
  "get_subdirectory self ''meta'' None = Inr meta_vdir \<Longrightarrow>
     yaml_loads (snd (load_public_data self)) = yaml_loads self @ [''public.yaml'']"
  by (simp add: load_public_data_def load_file_def Let_def)

lemma load_build_result_parses:
  "get_subdirectory self ''meta'' None = Inr meta_vdir \<Longrightarrow>
   path_exists (objpath meta_vdir ''build-result.yaml'') \<Longrightarrow>
     yaml_loads (snd (load_build_result self)) = yaml_loads self @ [''build-result.yaml'']"
  by (simp add: load_build_result_def load_file_def Let_def split: sum.splits)

text \<open>
  C4, amended: each of the four \<^verbatim>\<open>get_metadata_*\<close> accessors parses its file at most once
  per handle: a call that returns has parsed the file at most once and has cached its
  result on the handle, and a repeated call returns the cached value and parses nothing.
  \<^verbatim>\<open>load_public_data()\<close> and \<^verbatim>\<open>load_build_result()\<close> keep no cache: every call that finds the
  file parses it again.
\<close>

theorem metadata_parsed_once:
  "(get_metadata_keys self = (Inr keys, self_k) \<longrightarrow>
      metadata_keys self_k = Some keys \<and> get_metadata_keys self_k = (Inr keys, self_k)
      \<and> (yaml_loads self_k = yaml_loads self \<or> yaml_loads self_k = yaml_loads self @ [''keys.yaml'']))
   \<and> (get_metadata_dependencies self = (Inr deps, self_d) \<longrightarrow>
      metadata_dependencies self_d = Some deps \<and> get_metadata_dependencies self_d = (Inr deps, self_d)
      \<and> (yaml_loads self_d = yaml_loads self
          \<or> yaml_loads self_d = yaml_loads self @ [''dependencies.yaml'']))
   \<and> (get_metadata_workspaced self = (Inr w, self_w) \<longrightarrow>
      metadata_workspaced self_w = Some w \<and> get_metadata_workspaced self_w = (Inr w, self_w)
      \<and> (yaml_loads self_w = yaml_loads self
          \<or> yaml_loads self_w = yaml_loads self @ [''workspaced.yaml'']))
   \<and> (get_metadata_workspaced_dependencies self = (Inr ws, self_ws) \<longrightarrow>
      metadata_workspaced_dependencies self_ws = Some ws
      \<and> get_metadata_workspaced_dependencies self_ws = (Inr ws, self_ws)
      \<and> (yaml_loads self_ws = yaml_loads self
          \<or> yaml_loads self_ws = yaml_loads self @ [''workspaced-dependencies.yaml'']))
   \<and> (get_subdirectory self ''meta'' None = Inr meta_vdir \<longrightarrow>
      yaml_loads (snd (load_public_data self)) = yaml_loads self @ [''public.yaml''])
   \<and> (get_subdirectory self ''meta'' None = Inr meta_vdir
        \<and> path_exists (objpath meta_vdir ''build-result.yaml'') \<longrightarrow>
      yaml_loads (snd (load_build_result self)) = yaml_loads self @ [''build-result.yaml''])"
  using get_metadata_keys_once [of self keys self_k]
    get_metadata_dependencies_once [of self deps self_d]
    get_metadata_workspaced_once [of self w self_w]
    get_metadata_workspaced_dependencies_once [of self ws self_ws]
    load_public_data_parses [of self meta_vdir]
    load_build_result_parses [of self meta_vdir]
  by blast

lemma hello_get_metadata_keys:
  "get_metadata_keys (hello_artifact True True True (Directory hello_root))
     = (Inr (YStr ''aaaa'', YStr ''bbbb''),
        (hello_artifact True True True (Directory hello_root))
          \<lparr>metadata_keys := Some (YStr ''aaaa'', YStr ''bbbb''), yaml_loads := [''keys.yaml'']\<rparr>)"
  by (simp add: get_metadata_keys_def objpath_def load_file_def yaml_load_def
      node_get_def has_type_def Let_def hello_meta_def)

theorem metadata_parsed_once_witness:
  "get_metadata_keys (hello_artifact True True True (Directory hello_root))
     = (Inr (YStr ''aaaa'', YStr ''bbbb''),
        (hello_artifact True True True (Directory hello_root))
          \<lparr>metadata_keys := Some (YStr ''aaaa'', YStr ''bbbb''), yaml_loads := [''keys.yaml'']\<rparr>)
   \<and> get_metadata_keys ((hello_artifact True True True (Directory hello_root))
          \<lparr>metadata_keys := Some (YStr ''aaaa'', YStr ''bbbb''), yaml_loads := [''keys.yaml'']\<rparr>)
     = (Inr (YStr ''aaaa'', YStr ''bbbb''),
        (hello_artifact True True True (Directory hello_root))
          \<lparr>metadata_keys := Some (YStr ''aaaa'', YStr ''bbbb''), yaml_loads := [''keys.yaml'']\<rparr>)
   \<and> yaml_loads (snd (load_public_data (hello_artifact True True True (Directory hello_root))))
     = yaml_loads (hello_artifact True True True (Directory hello_root)) @ [''public.yaml'']"
  using metadata_parsed_once [of "hello_artifact True True True (Directory hello_root)"
      "(YStr ''aaaa'', YStr ''bbbb'')"
      "(hello_artifact True True True (Directory hello_root))
          \<lparr>metadata_keys := Some (YStr ''aaaa'', YStr ''bbbb''), yaml_loads := [''keys.yaml'']\<rparr>"
      _ _ _ _ _ _ hello_meta]
    hello_get_metadata_keys
  by simp

subsection \<open>What the accessors leave alone\<close>

lemma get_metadata_keys_frame:
  "same_identity self (snd (get_metadata_keys self))
   \<and> metadata_dependencies (snd (get_metadata_keys self)) = metadata_dependencies self
   \<and> metadata_workspaced (snd (get_metadata_keys self)) = metadata_workspaced self
   \<and> metadata_workspaced_dependencies (snd (get_metadata_keys self))
       = metadata_workspaced_dependencies self
   \<and> (metadata_keys self \<noteq> None \<longrightarrow> snd (get_metadata_keys self) = self)"
  by (auto simp: get_metadata_keys_def same_identity_def load_file_def Let_def
      split: option.splits sum.splits prod.splits)

lemma get_metadata_dependencies_frame:
  "same_identity self (snd (get_metadata_dependencies self))
   \<and> metadata_keys (snd (get_metadata_dependencies self)) = metadata_keys self
   \<and> metadata_workspaced (snd (get_metadata_dependencies self)) = metadata_workspaced self
   \<and> metadata_workspaced_dependencies (snd (get_metadata_dependencies self))
       = metadata_workspaced_dependencies self
   \<and> (metadata_dependencies self \<noteq> None \<longrightarrow> snd (get_metadata_dependencies self) = self)"
  by (auto simp: get_metadata_dependencies_def same_identity_def load_file_def Let_def
      split: option.splits sum.splits prod.splits)

lemma get_metadata_workspaced_frame:
  "same_identity self (snd (get_metadata_workspaced self))
   \<and> metadata_keys (snd (get_metadata_workspaced self)) = metadata_keys self
   \<and> metadata_dependencies (snd (get_metadata_workspaced self)) = metadata_dependencies self
   \<and> metadata_workspaced_dependencies (snd (get_metadata_workspaced self))
       = metadata_workspaced_dependencies self
   \<and> (metadata_workspaced self \<noteq> None \<longrightarrow> snd (get_metadata_workspaced self) = self)"
  by (auto simp: get_metadata_workspaced_def same_identity_def load_file_def Let_def
      split: option.splits sum.splits prod.splits)

lemma get_metadata_workspaced_dependencies_frame:
  "same_identity self (snd (get_metadata_workspaced_dependencies self))
   \<and> metadata_keys (snd (get_metadata_workspaced_dependencies self)) = metadata_keys self
   \<and> metadata_dependencies (snd (get_metadata_workspaced_dependencies self))
       = metadata_dependencies self
   \<and> metadata_workspaced (snd (get_metadata_workspaced_dependencies self)) = metadata_workspaced self
   \<and> (metadata_workspaced_dependencies self \<noteq> None
        \<longrightarrow> snd (get_metadata_workspaced_dependencies self) = self)"
  by (auto simp: get_metadata_workspaced_dependencies_def same_identity_def load_file_def Let_def
      split: option.splits sum.splits prod.splits)

text \<open>
  C10. Each \<^verbatim>\<open>get_metadata_*\<close> accessor changes at most its own memo field: after a call,
  returned or raised, the element, the context with the store, the two keys and the other
  three memo fields are as before; and when its own memo field is already set, the call
  changes nothing at all. So a memo field, once set, is not changed by later calls.
\<close>

theorem metadata_accessors_frame:
  "(same_identity self (snd (get_metadata_keys self))
    \<and> metadata_dependencies (snd (get_metadata_keys self)) = metadata_dependencies self
    \<and> metadata_workspaced (snd (get_metadata_keys self)) = metadata_workspaced self
    \<and> metadata_workspaced_dependencies (snd (get_metadata_keys self))
        = metadata_workspaced_dependencies self
    \<and> (metadata_keys self \<noteq> None \<longrightarrow> snd (get_metadata_keys self) = self))
   \<and> (same_identity self (snd (get_metadata_dependencies self))
    \<and> metadata_keys (snd (get_metadata_dependencies self)) = metadata_keys self
    \<and> metadata_workspaced (snd (get_metadata_dependencies self)) = metadata_workspaced self
    \<and> metadata_workspaced_dependencies (snd (get_metadata_dependencies self))
        = metadata_workspaced_dependencies self
    \<and> (metadata_dependencies self \<noteq> None \<longrightarrow> snd (get_metadata_dependencies self) = self))
   \<and> (same_identity self (snd (get_metadata_workspaced self))
    \<and> metadata_keys (snd (get_metadata_workspaced self)) = metadata_keys self
    \<and> metadata_dependencies (snd (get_metadata_workspaced self)) = metadata_dependencies self
    \<and> metadata_workspaced_dependencies (snd (get_metadata_workspaced self))
        = metadata_workspaced_dependencies self
    \<and> (metadata_workspaced self \<noteq> None \<longrightarrow> snd (get_metadata_workspaced self) = self))
   \<and> (same_identity self (snd (get_metadata_workspaced_dependencies self))
    \<and> metadata_keys (snd (get_metadata_workspaced_dependencies self)) = metadata_keys self
    \<and> metadata_dependencies (snd (get_metadata_workspaced_dependencies self))
        = metadata_dependencies self
    \<and> metadata_workspaced (snd (get_metadata_workspaced_dependencies self)) = metadata_workspaced self
    \<and> (metadata_workspaced_dependencies self \<noteq> None
         \<longrightarrow> snd (get_metadata_workspaced_dependencies self) = self))"
  using get_metadata_keys_frame [of self] get_metadata_dependencies_frame [of self]
    get_metadata_workspaced_frame [of self] get_metadata_workspaced_dependencies_frame [of self]
  by blast

theorem metadata_accessors_frame_witness:
  "metadata_keys (snd (get_metadata_keys (hello_artifact True True True (Directory hello_root)))) \<noteq> None
   \<and> snd (get_metadata_keys (snd (get_metadata_keys (hello_artifact True True True (Directory hello_root)))))
       = snd (get_metadata_keys (hello_artifact True True True (Directory hello_root)))
   \<and> same_identity (hello_artifact True True True (Directory hello_root))
         (snd (get_metadata_keys (hello_artifact True True True (Directory hello_root))))"
  using metadata_accessors_frame [of "hello_artifact True True True (Directory hello_root)"]
    metadata_accessors_frame
      [of "snd (get_metadata_keys (hello_artifact True True True (Directory hello_root)))"]
    hello_get_metadata_keys
  by simp

subsection \<open>The real filesystem and the commit\<close>

lemma and_then_Inr:
  "and_then m f = Inr r \<longleftrightarrow> (\<exists>x. m = Inr x \<and> f x = Inr r)"
  by (cases m) (simp_all add: and_then_def)

lemma fs_put_lookup:
  "fs_put p new fs = Some fs' \<Longrightarrow> fs_lookup p fs' = Some new"
proof (induction p arbitrary: fs fs')
  case Nil
  then show ?case by simp
next
  case (Cons c cs)
  then show ?case
    by (cases fs) (auto simp: update_conv' split: if_splits option.splits)
qed

lemma fs_put_parent:
  "fs_put (p @ [c]) new fs = Some fs' \<Longrightarrow> fs_lookup p fs = Some (FsDir es) \<Longrightarrow>
     fs_lookup p fs' = Some (FsDir (AList.update c new es))"
proof (induction p arbitrary: fs fs')
  case Nil
  then show ?case by (cases fs) auto
next
  case (Cons d ds)
  then show ?case
    by (cases fs) (auto simp: update_conv' split: if_splits option.splits)
qed

lemma fs_put_sibling:
  "fs_put (p @ c # cs) new fs = Some fs' \<Longrightarrow> c \<noteq> d \<Longrightarrow>
     fs_lookup (p @ d # ds) fs' = fs_lookup (p @ d # ds) fs"
proof (induction p arbitrary: fs fs')
  case Nil
  then show ?case
    by (cases fs) (auto simp: update_conv' split: if_splits option.splits)
next
  case (Cons e es)
  then show ?case
    by (cases fs) (auto simp: update_conv' split: if_splits option.splits)
qed

lemma os_mkdir_lookup:
  "os_mkdir p fs = Inr fs' \<Longrightarrow> fs_lookup p fs' = Some (FsDir [])"
  by (auto simp: os_mkdir_def fs_put_lookup split: if_splits option.splits)

lemma os_mkdir_sibling:
  "os_mkdir (p @ c # cs) fs = Inr fs' \<Longrightarrow> c \<noteq> d \<Longrightarrow>
     fs_lookup (p @ d # ds) fs' = fs_lookup (p @ d # ds) fs"
  by (auto simp: os_mkdir_def fs_put_sibling split: if_splits option.splits)

lemma write_file_parent:
  "write_file (p @ [c]) d fs = Inr fs' \<Longrightarrow> fs_lookup p fs = Some (FsDir es) \<Longrightarrow>
     fs_lookup p fs' = Some (FsDir (AList.update c (FsFile d) es))"
  by (auto simp: write_file_def fs_put_parent split: option.splits fsnode.splits)

lemma write_file_sibling:
  "write_file (p @ c # cs) x fs = Inr fs' \<Longrightarrow> c \<noteq> d \<Longrightarrow>
     fs_lookup (p @ d # ds) fs' = fs_lookup (p @ d # ds) fs"
  by (auto simp: write_file_def fs_put_sibling split: option.splits fsnode.splits)

lemma dump_all_lookup:
  "dump_all docs metadir fs = Inr fs' \<Longrightarrow> fs_lookup metadir fs = Some (FsDir es) \<Longrightarrow>
     fs_lookup metadir fs' =
       Some (FsDir (fold (\<lambda>(n, node). AList.update n (FsFile (YamlText node))) docs es))"
proof (induction docs arbitrary: fs es)
  case Nil
  then show ?case by simp
next
  case (Cons doc docs)
  obtain n node where doc: "doc = (n, node)" by (cases doc)
  from Cons.prems(1) doc obtain fs1 where
    w: "write_file (metadir @ [n]) (YamlText node) fs = Inr fs1" and
    r: "dump_all docs metadir fs1 = Inr fs'"
    by (auto simp: yaml_dump_def split: sum.splits)
  from write_file_parent [OF w Cons.prems(2)]
  have "fs_lookup metadir fs1 = Some (FsDir (AList.update n (FsFile (YamlText node)) es))" .
  from Cons.IH [OF r this] doc show ?case by simp
qed

lemma dump_all_sibling:
  "dump_all docs (p @ [c]) fs = Inr fs' \<Longrightarrow> c \<noteq> d \<Longrightarrow>
     fs_lookup (p @ d # ds) fs' = fs_lookup (p @ d # ds) fs"
proof (induction docs arbitrary: fs)
  case Nil
  then show ?case by simp
next
  case (Cons doc docs)
  obtain n node where doc: "doc = (n, node)" by (cases doc)
  from Cons.prems(1) doc obtain fs1 where
    w: "write_file (p @ c # [n]) (YamlText node) fs = Inr fs1" and
    r: "dump_all docs (p @ [c]) fs1 = Inr fs'"
    by (auto simp: yaml_dump_def split: sum.splits)
  from write_file_sibling [OF w Cons.prems(2)] Cons.IH [OF r Cons.prems(2)]
  show ?case by simp
qed

lemma commit_resolves:
  "get_artifact_directory (commit ac el vdir (deduplicate [ck, wk])) el (if truthy ck then ck else wk)
     = Inr vdir"
  by (simp add: get_artifact_directory_def commit_def deduplicate_def get_artifact_name_def
      get_digest_def)

lemma set_build_log_path_name [simp]:
  "el_name (set_build_log_path p el) = el_name el"
  by (cases el) simp

lemma get_artifact_directory_build_log_path [simp]:
  "get_artifact_directory ac (set_build_log_path p el) key = get_artifact_directory ac el key"
  by (simp add: get_artifact_directory_def get_artifact_name_def)

lemma commit_build_log_path [simp]:
  "commit ac (set_build_log_path p el) vdir keys = commit ac el vdir keys"
  by (simp add: commit_def get_artifact_name_def)

lemma meta_documents_files:
  "fold (\<lambda>(n, node). AList.update n (FsFile (YamlText node))) (meta_documents self br pd) []
     = map (\<lambda>(n, node). (n, FsFile (YamlText node))) (meta_documents self br pd)"
  by (simp add: meta_documents_def)

lemma map_of_imported:
  "map_of (AList.merge [] (map (\<lambda>(n, c). (n, to_vnode c))
       (map (\<lambda>(n, node). (n, FsFile (YamlText node))) docs))) n
     = map_option (\<lambda>node. File (Some (YamlText node)) False) (map_of docs n)"
proof -
  have "map_of (map (\<lambda>(n, c). (n, to_vnode c)) (map (\<lambda>(n, node). (n, FsFile (YamlText node))) docs)) n
      = map_option (\<lambda>node. File (Some (YamlText node)) False) (map_of docs n)"
    by (induction docs) auto
  then show ?thesis by (simp only: merge_conv' map_of.simps empty_map_add)
qed

lemma cache_success:
  assumes c: "cache self rootdir sandbox_build_dir collectvdir buildresult publicdata fs
                = Inr (sz, self', fs')"
  shows "fs_lookup (rootdir @ [''artifact'', ''meta'']) fs'
           = Some (FsDir (map (\<lambda>(n, node). (n, FsFile (YamlText node)))
                (meta_documents self buildresult publicdata)))"
    and "\<exists>root meta. get_directory self' None = Inr root
           \<and> map_of root ''meta'' = Some (Directory meta)
           \<and> (\<forall>n. map_of meta n = map_option (\<lambda>node. File (Some (YamlText node)) False)
                  (map_of (meta_documents self buildresult publicdata) n))
           \<and> exists_vdir root ''logs''
           \<and> (exists_vdir root ''files'' \<longleftrightarrow> collectvdir \<noteq> None)
           \<and> (exists_vdir root ''buildtree'' \<longleftrightarrow> sandbox_build_dir \<noteq> None)"
    and "self' = self\<lparr>element := element self', context := context self'\<rparr>"
proof -
  let ?A = "rootdir @ [''artifact'']"
  let ?L = "rootdir @ [''artifact'', ''logs'']"
  let ?M = "rootdir @ [''artifact'', ''meta'']"
  let ?docs = "meta_documents self buildresult publicdata"
  from c obtain fs1 fs2 fs3 fs4 vdir3 vdir4 vdir5 vdir6 where
    m1: "os_mkdir ?A fs = Inr fs1" and
    m2: "os_mkdir ?L fs1 = Inr fs2" and
    m3: "os_mkdir ?M fs2 = Inr fs3" and
    v3: "(case collectvdir of None \<Rightarrow> Inr [(''logs'', Directory []), (''meta'', Directory [])]
          | Some files \<Rightarrow> and_then (descend_create [(''logs'', Directory []), (''meta'', Directory [])] ''files'')
              (\<lambda>v. import_files v ''files'' files)) = Inr vdir3" and
    v4: "(case sandbox_build_dir of None \<Rightarrow> Inr vdir3
          | Some buildtree \<Rightarrow> and_then (descend_create vdir3 ''buildtree'')
              (\<lambda>v. import_files v ''buildtree'' buildtree)) = Inr vdir4" and
    l4: "(case log_filename (context self) of None \<Rightarrow> Inr fs3
          | Some name \<Rightarrow> if name = [] then Inr fs3
              else copyfile name (((rootdir @ [''artifact'']) @ [''logs'']) @ [''build.log'']) fs3) = Inr fs4" and
    d5: "dump_all ?docs ?M fs4 = Inr fs'" and
    v5: "import_files_from_path vdir4 ''meta'' ?M fs' = Inr vdir5" and
    v6: "import_files_from_path vdir5 ''logs'' ?L fs' = Inr vdir6" and
    s': "self' = self\<lparr>element := set_build_log_path (Some (rootdir @ [''artifact'', ''logs'', ''build.log''])) (element self),
            context := (context self)\<lparr>artifactcache :=
              commit (artifactcache (context self)) (element self) vdir6
                (deduplicate [cache_key self, weak_cache_key self])\<rparr>\<rparr>"
    by (auto simp: cache_def Let_def and_then_Inr descend_create_def)
  have meta3: "fs_lookup ?M fs3 = Some (FsDir [])"
    using os_mkdir_lookup [OF m3] .
  have meta4: "fs_lookup ?M fs4 = Some (FsDir [])"
  proof (cases "fs4 = fs3")
    case True
    with meta3 show ?thesis by simp
  next
    case False
    with l4 obtain d where
      "write_file (rootdir @ [''artifact'', ''logs'', ''build.log'']) d fs3 = Inr fs4"
      by (auto simp: copyfile_def split: option.splits if_splits fsnode.splits)
    with write_file_sibling [of ?A "''logs''" "[''build.log'']" d fs3 fs4 "''meta''" "[]"] meta3
    show ?thesis by simp
  qed
  from dump_all_lookup [of ?docs ?M fs4 fs' "[]"] d5 meta4
  have meta5: "fs_lookup ?M fs'
      = Some (FsDir (map (\<lambda>(n, node). (n, FsFile (YamlText node))) ?docs))"
    by (simp add: meta_documents_files)
  then show "fs_lookup (rootdir @ [''artifact'', ''meta'']) fs'
           = Some (FsDir (map (\<lambda>(n, node). (n, FsFile (YamlText node))) ?docs))"
    by simp
  from s' show "self' = self\<lparr>element := element self', context := context self'\<rparr>"
    by simp
  let ?meta = "AList.merge [] (map (\<lambda>(n, c). (n, to_vnode c))
       (map (\<lambda>(n, node). (n, FsFile (YamlText node))) ?docs))"
  from v6 obtain logs where
    root: "vdir6 = AList.update ''logs'' (Directory logs) vdir5"
    by (auto simp: import_files_from_path_def import_files_def
        split: option.splits fsnode.splits sum.splits)
  from v5 meta5 obtain old where
    r5: "vdir5 = AList.update ''meta'' (Directory (AList.merge old
            (map (\<lambda>(n, c). (n, to_vnode c)) (map (\<lambda>(n, node). (n, FsFile (YamlText node))) ?docs)))) vdir4"
      and old: "descend vdir4 ''meta'' = Inr old"
    by (auto simp: import_files_from_path_def import_files_def split: sum.splits)
  from v3 v4 have
    m4: "map_of vdir4 ''meta'' = Some (Directory [])" and
    l4: "map_of vdir4 ''logs'' \<noteq> None" and
    f4: "map_of vdir4 ''files'' \<noteq> None \<longleftrightarrow> collectvdir \<noteq> None" and
    b4: "map_of vdir4 ''buildtree'' \<noteq> None \<longleftrightarrow> sandbox_build_dir \<noteq> None"
    by (auto simp: and_then_Inr descend_create_def import_files_def descend_def update_conv'
        split: option.splits)
  from old m4 have "old = []" by (simp add: descend_def)
  with r5 have r5': "vdir5 = AList.update ''meta'' (Directory ?meta) vdir4" by simp
  have gd: "get_directory self' None = Inr vdir6"
    using commit_resolves [of "artifactcache (context self)" "element self" vdir6
        "cache_key self" "weak_cache_key self"]
    by (cases "truthy (cache_key self)") (simp_all add: s' get_directory_def get_extract_key_def)
  show "\<exists>root meta. get_directory self' None = Inr root
           \<and> map_of root ''meta'' = Some (Directory meta)
           \<and> (\<forall>n. map_of meta n = map_option (\<lambda>node. File (Some (YamlText node)) False)
                  (map_of ?docs n))
           \<and> exists_vdir root ''logs''
           \<and> (exists_vdir root ''files'' \<longleftrightarrow> collectvdir \<noteq> None)
           \<and> (exists_vdir root ''buildtree'' \<longleftrightarrow> sandbox_build_dir \<noteq> None)"
  proof (rule exI [of _ vdir6], rule exI [of _ ?meta], intro conjI)
    show "get_directory self' None = Inr vdir6" by (rule gd)
    show "map_of vdir6 ''meta'' = Some (Directory ?meta)"
      by (simp add: root r5' update_conv')
    show "\<forall>n. map_of ?meta n = map_option (\<lambda>node. File (Some (YamlText node)) False)
                  (map_of ?docs n)"
      by (rule allI) (rule map_of_imported)
    show "exists_vdir vdir6 ''logs''"
      by (simp add: root exists_vdir_def update_conv')
    show "exists_vdir vdir6 ''files'' \<longleftrightarrow> collectvdir \<noteq> None"
      using f4 by (simp add: root r5' exists_vdir_def update_conv')
    show "exists_vdir vdir6 ''buildtree'' \<longleftrightarrow> sandbox_build_dir \<noteq> None"
      using b4 by (simp add: root r5' exists_vdir_def update_conv')
  qed
qed

lemma hello_commit_returns:
  "\<not> isl (hello_commit None (Some hello_files))"
  by (simp add: hello_commit_def cache_def tmp_fs_def and_then_def descend_create_def os_mkdir_def
      import_files_def descend_def import_files_from_path_def meta_documents_def yaml_dump_def
      write_file_def copyfile_def Let_def hello_artifact_def Artifact_init_def hello_context_def)

lemma hello_commit_result:
  "hello_commit sbd cvd =
     Inr (fst (projr (hello_commit sbd cvd)), fst (snd (projr (hello_commit sbd cvd))),
          snd (snd (projr (hello_commit sbd cvd))))
   \<longleftrightarrow> \<not> isl (hello_commit sbd cvd)"
  by (cases "hello_commit sbd cvd") auto

lemma hello_commit_returns_bare:
  "\<not> isl (hello_commit None None)"
  by (simp add: hello_commit_def cache_def tmp_fs_def and_then_def descend_create_def os_mkdir_def
      import_files_def descend_def import_files_from_path_def meta_documents_def yaml_dump_def
      write_file_def copyfile_def Let_def hello_artifact_def Artifact_init_def hello_context_def)

subsection \<open>The tree that is committed\<close>

text \<open>
  C9. The root that \<^verbatim>\<open>cache()\<close> assembles and commits has the children \<^verbatim>\<open>logs\<close> and \<^verbatim>\<open>meta\<close>
  in every case, the child \<^verbatim>\<open>files\<close> if and only if a collected-files directory was given,
  and the child \<^verbatim>\<open>buildtree\<close> if and only if a sandbox build directory was given. The root is
  what the handle's reference resolves to after the commit.
\<close>

theorem cache_root_children:
  "cache self rootdir sandbox_build_dir collectvdir buildresult publicdata fs = Inr (sz, self', fs')
   \<Longrightarrow> \<exists>root. get_directory self' None = Inr root
         \<and> exists_vdir root ''logs'' \<and> exists_vdir root ''meta''
         \<and> (exists_vdir root ''files'' \<longleftrightarrow> collectvdir \<noteq> None)
         \<and> (exists_vdir root ''buildtree'' \<longleftrightarrow> sandbox_build_dir \<noteq> None)"
  using cache_success(2)
    [of self rootdir sandbox_build_dir collectvdir buildresult publicdata fs sz self' fs']
  by (auto simp: exists_vdir_def)

theorem cache_root_children_witness:
  "\<exists>root. get_directory (fst (snd (projr (hello_commit None (Some hello_files))))) None = Inr root
      \<and> exists_vdir root ''logs'' \<and> exists_vdir root ''meta''
      \<and> exists_vdir root ''files'' \<and> \<not> exists_vdir root ''buildtree''"
proof -
  have "cache (hello_artifact False True True AbsentDirectory) [''tmp'', ''build'']
       None (Some hello_files) (True, ''succeeded'', None) Map.empty tmp_fs
     = Inr (fst (projr (hello_commit None (Some hello_files))),
            fst (snd (projr (hello_commit None (Some hello_files)))),
            snd (snd (projr (hello_commit None (Some hello_files)))))"
    using hello_commit_returns hello_commit_result [of None "Some hello_files"]
    by (simp add: hello_commit_def)
  from cache_root_children [OF this] show ?thesis by simp
qed

subsection \<open>The metadata documents\<close>

text \<open>
  C5, as stated: the commit emits five YAML documents into the real \<^verbatim>\<open>meta/\<close> directory. It
  emits six: after a commit the real \<^verbatim>\<open>meta/\<close> directory holds six files.
\<close>

theorem cache_emits_six_documents:
  "\<not> isl (hello_commit None None)
   \<and> map fst (real_meta_files [''tmp'', ''build''] (snd (snd (projr (hello_commit None None)))))
       = [''public.yaml'', ''build-result.yaml'', ''keys.yaml'', ''dependencies.yaml'',
          ''workspaced.yaml'', ''workspaced-dependencies.yaml'']
   \<and> length (real_meta_files [''tmp'', ''build''] (snd (snd (projr (hello_commit None None))))) = 6"
proof -
  have "cache (hello_artifact False True True AbsentDirectory) [''tmp'', ''build'']
       None None (True, ''succeeded'', None) Map.empty tmp_fs
     = Inr (fst (projr (hello_commit None None)), fst (snd (projr (hello_commit None None))),
            snd (snd (projr (hello_commit None None))))"
    using hello_commit_returns_bare hello_commit_result [of None None]
    by (simp add: hello_commit_def)
  from cache_success(1) [OF this] hello_commit_returns_bare show ?thesis
    by (simp add: real_meta_files_def meta_documents_def)
qed

lemma valid_root_committed:
  assumes "map_of root ''meta'' = Some (Directory meta)"
    and "\<forall>n. map_of meta n = map_option (\<lambda>node. File (Some (YamlText node)) False)
            (map_of (meta_documents self buildresult publicdata) n)"
  shows "valid_root root"
  using assms by (simp add: valid_root_def descend_def well_known_meta_files_def meta_documents_def)

text \<open>
  C5, amended: the commit emits six YAML documents (\<^verbatim>\<open>public.yaml\<close>, \<^verbatim>\<open>build-result.yaml\<close>,
  \<^verbatim>\<open>keys.yaml\<close>, \<^verbatim>\<open>dependencies.yaml\<close>, \<^verbatim>\<open>workspaced.yaml\<close>,
  \<^verbatim>\<open>workspaced-dependencies.yaml\<close>) into the real \<^verbatim>\<open>meta/\<close> directory before it imports that
  directory, and the root it commits is valid: \<^verbatim>\<open>meta/\<close> and all six of those files are
  present in it.
\<close>

theorem cache_meta_documents:
  "cache self rootdir sandbox_build_dir collectvdir buildresult publicdata fs = Inr (sz, self', fs')
   \<Longrightarrow> real_meta_files rootdir fs'
         = map (\<lambda>(n, node). (n, FsFile (YamlText node))) (meta_documents self buildresult publicdata)
       \<and> map fst (real_meta_files rootdir fs') = well_known_meta_files
       \<and> (\<exists>root. get_directory self' None = Inr root \<and> valid_root root)"
proof -
  assume c: "cache self rootdir sandbox_build_dir collectvdir buildresult publicdata fs
      = Inr (sz, self', fs')"
  from cache_success(1) [OF c]
  have 1: "real_meta_files rootdir fs'
      = map (\<lambda>(n, node). (n, FsFile (YamlText node))) (meta_documents self buildresult publicdata)"
    by (simp add: real_meta_files_def)
  then have 2: "map fst (real_meta_files rootdir fs') = well_known_meta_files"
    by (simp add: meta_documents_def well_known_meta_files_def)
  from cache_success(2) [OF c] valid_root_committed
  have 3: "\<exists>root. get_directory self' None = Inr root \<and> valid_root root"
    by blast
  from 1 2 3 show ?thesis by simp
qed

theorem cache_meta_documents_witness:
  "map fst (real_meta_files [''tmp'', ''build'']
       (snd (snd (projr (hello_commit None (Some hello_files)))))) = well_known_meta_files
   \<and> (\<exists>root. get_directory (fst (snd (projr (hello_commit None (Some hello_files))))) None = Inr root
         \<and> valid_root root)"
proof -
  have "cache (hello_artifact False True True AbsentDirectory) [''tmp'', ''build'']
       None (Some hello_files) (True, ''succeeded'', None) Map.empty tmp_fs
     = Inr (fst (projr (hello_commit None (Some hello_files))),
            fst (snd (projr (hello_commit None (Some hello_files)))),
            snd (snd (projr (hello_commit None (Some hello_files)))))"
    using hello_commit_returns hello_commit_result [of None "Some hello_files"]
    by (simp add: hello_commit_def)
  from cache_meta_documents [OF this] show ?thesis by blast
qed

subsection \<open>Commit, then read\<close>

lemma cache_keeps_memos:
  assumes "cache self rootdir sandbox_build_dir collectvdir buildresult publicdata fs
             = Inr (sz, self', fs')"
  shows "metadata_keys self' = metadata_keys self"
    and "metadata_dependencies self' = metadata_dependencies self"
    and "metadata_workspaced self' = metadata_workspaced self"
    and "metadata_workspaced_dependencies self' = metadata_workspaced_dependencies self"
    and "cache_key self' = cache_key self"
    and "weak_cache_key self' = weak_cache_key self"
proof -
  from cache_success(3) [OF assms]
  have s: "self' = self\<lparr>element := element self', context := context self'\<rparr>" .
  show "metadata_keys self' = metadata_keys self" by (subst s) simp
  show "metadata_dependencies self' = metadata_dependencies self" by (subst s) simp
  show "metadata_workspaced self' = metadata_workspaced self" by (subst s) simp
  show "metadata_workspaced_dependencies self' = metadata_workspaced_dependencies self"
    by (subst s) simp
  show "cache_key self' = cache_key self" by (subst s) simp
  show "weak_cache_key self' = weak_cache_key self" by (subst s) simp
qed

lemma dependencies_dict_build_log_path [simp]:
  "el_dependencies (set_build_log_path p el) = el_dependencies el"
  "el_workspace (set_build_log_path p el) = el_workspace el"
  by (cases el; simp)+

text \<open>
  C6. For every pair of cache keys \<open>strong\<close> and \<open>weak\<close>: on a handle constructed with them,
  after \<^verbatim>\<open>cache()\<close> has returned, \<^verbatim>\<open>get_metadata_keys()\<close> returns \<open>(strong, weak)\<close>; and every
  other accessor returns what was committed: the dependency keys, the workspaced flag, the
  workspaced dependencies, the build result and the public data.
\<close>

theorem commit_then_read:
  assumes c: "cache (Artifact_init el ctx (Some strong) (Some weak)) rootdir sandbox_build_dir
                collectvdir (success, description, detail) publicdata fs = Inr (sz, self', fs')"
  shows "fst (get_metadata_keys self') = Inr (YStr strong, YStr weak)
     \<and> fst (get_metadata_dependencies self') = Inr (dependencies_dict el)
     \<and> fst (get_metadata_workspaced self') = Inr (YBool (el_workspace el))
     \<and> fst (get_metadata_workspaced_dependencies self') = Inr (workspaced_dependencies_list el)
     \<and> fst (load_build_result self') = Inr (YBool success, YStr description, opt_str detail)
     \<and> fst (load_public_data self') = Inr publicdata"
proof -
  let ?self = "Artifact_init el ctx (Some strong) (Some weak)"
  let ?docs = "meta_documents ?self (success, description, detail) publicdata"
  from cache_success(2) [OF c] obtain root meta where
    root: "get_directory self' None = Inr root" and
    meta: "map_of root ''meta'' = Some (Directory meta)" and
    files: "\<And>n. map_of meta n = map_option (\<lambda>node. File (Some (YamlText node)) False) (map_of ?docs n)"
    by blast
  have sub: "get_subdirectory self' ''meta'' None = Inr meta"
    using root meta by (simp add: get_subdirectory_def descend_def)
  have memo: "metadata_keys self' = None" "metadata_dependencies self' = None"
    "metadata_workspaced self' = None" "metadata_workspaced_dependencies self' = None"
    using cache_keeps_memos [OF c] by (simp_all add: Artifact_init_def)
  have el: "element ?self = el" "cache_key ?self = Some strong" "weak_cache_key ?self = Some weak"
    by (simp_all add: Artifact_init_def)
  have paths:
    "objpath meta ''keys.yaml'' = Some (YamlText [''strong'' \<mapsto> YStr strong, ''weak'' \<mapsto> YStr weak])"
    "objpath meta ''dependencies.yaml'' = Some (YamlText (dependencies_dict el))"
    "objpath meta ''workspaced.yaml'' = Some (YamlText [''workspaced'' \<mapsto> YBool (el_workspace el)])"
    "objpath meta ''workspaced-dependencies.yaml''
       = Some (YamlText [''workspaced-dependencies'' \<mapsto> workspaced_dependencies_list el])"
    "objpath meta ''build-result.yaml'' = Some (YamlText (build_result_dict (success, description, detail)))"
    "objpath meta ''public.yaml'' = Some (YamlText publicdata)"
    by (simp_all add: objpath_def files meta_documents_def el node_sanitize_def opt_str_def)
  have k: "fst (get_metadata_keys self') = Inr (YStr strong, YStr weak)"
    by (simp add: get_metadata_keys_def memo sub paths load_file_def yaml_load_def node_get_def
        has_type_def Let_def)
  have d: "fst (get_metadata_dependencies self') = Inr (dependencies_dict el)"
    by (simp add: get_metadata_dependencies_def memo sub paths load_file_def yaml_load_def Let_def)
  have w: "fst (get_metadata_workspaced self') = Inr (YBool (el_workspace el))"
    by (simp add: get_metadata_workspaced_def memo sub paths load_file_def yaml_load_def
        node_get_def has_type_def Let_def)
  have wd: "fst (get_metadata_workspaced_dependencies self') = Inr (workspaced_dependencies_list el)"
    by (simp add: get_metadata_workspaced_dependencies_def memo sub paths load_file_def
        yaml_load_def node_get_def has_type_def Let_def node_sanitize_def
        workspaced_dependencies_list_def)
  have b: "fst (load_build_result self') = Inr (YBool success, YStr description, opt_str detail)"
    by (cases detail)
      (simp_all add: load_build_result_def sub paths path_exists_def load_file_def yaml_load_def
        node_get_def has_type_def Let_def build_result_dict_def opt_str_def)
  have p: "fst (load_public_data self') = Inr publicdata"
    by (simp add: load_public_data_def sub paths load_file_def yaml_load_def Let_def)
  from k d w wd b p show ?thesis by simp
qed

theorem commit_then_read_witness:
  "fst (get_metadata_keys (fst (snd (projr (hello_commit None (Some hello_files))))))
     = Inr (YStr ''aaaa'', YStr ''bbbb'')
   \<and> fst (load_build_result (fst (snd (projr (hello_commit None (Some hello_files))))))
     = Inr (YBool True, YStr ''succeeded'', YNone)"
proof -
  have "cache (Artifact_init (hello_element False) (hello_context True True AbsentDirectory)
         (Some ''aaaa'') (Some ''bbbb'')) [''tmp'', ''build'']
       None (Some hello_files) (True, ''succeeded'', None) Map.empty tmp_fs
     = Inr (fst (projr (hello_commit None (Some hello_files))),
            fst (snd (projr (hello_commit None (Some hello_files)))),
            snd (snd (projr (hello_commit None (Some hello_files)))))"
    using hello_commit_returns hello_commit_result [of None "Some hello_files"]
    by (simp add: hello_commit_def hello_artifact_def)
  from commit_then_read [OF this] show ?thesis by (simp add: opt_str_def)
qed

end
